theory Spec2Isabelle
  imports Complex_Main "HOL-Library.Product_Lexorder"
begin

section \<open>Multi-gate stock screening and signal fusion\<close>

text \<open>
  A shallow embedding of the decision logic of the repository: the lightweight gates of
  \<^verbatim>\<open>.github/scripts/gate1_fundamental.py\<close> and \<^verbatim>\<open>.github/scripts/gate2_growth_value.py\<close>,
  and the data classes and the \<^verbatim>\<open>StrategyIntegrator\<close> of \<^verbatim>\<open>src/strategy_integration.py\<close>.

  Conventions of the model:
  \<^item> Python \<^verbatim>\<open>float\<close> is modelled by \<^typ>\<open>real\<close> (no rounding, no NaN, no infinities),
    Python \<^verbatim>\<open>int\<close> by \<^typ>\<open>int\<close>, \<^verbatim>\<open>Optional[T]\<close> by \<^typ>\<open>'a option\<close>,
    \<^verbatim>\<open>datetime\<close> by an integer time stamp.
  \<^item> A pandas data frame is a list of rows, oldest first; a row maps a column label to its
    cell, and \<^verbatim>\<open>row.get(label, default)\<close> is a lookup with a default. The column labels of
    the source are Chinese; the model writes them in ASCII transliteration.
  \<^item> Where several data classes have a field of the same name, the field is written with
    the class in front of it, as in \<open>RationalInvestmentScore.stock_code\<close>. A local
    variable of the source whose name is also the name of a field or property carries a
    prime (\<open>short_term'\<close>).
\<close>

subsection \<open>Data frames\<close>

type_synonym row = "string \<rightharpoonup> real"

text \<open>A data frame argument may be \<^verbatim>\<open>None\<close> (a failed fetch).\<close>

type_synonym dataframe = "row list option"

definition row_get :: "row \<Rightarrow> string \<Rightarrow> real \<Rightarrow> real" where
  "row_get r label dflt = (case r label of None \<Rightarrow> dflt | Some v \<Rightarrow> v)"

text \<open>The column labels read by the gates.\<close>

definition col_debt_ratio :: string where
  "col_debt_ratio = ''zichan fuzhai lv''"

definition col_current_ratio :: string where
  "col_current_ratio = ''liudong bilv''"

definition col_roe :: string where
  "col_roe = ''ROE''"

definition col_operating_cash_flow :: string where
  "col_operating_cash_flow = ''jingying xianjin liuliang jing e''"

definition col_net_profit :: string where
  "col_net_profit = ''jing lirun''"

definition col_net_profit_yoy :: string where
  "col_net_profit_yoy = ''jing lirun tongbi''"

definition col_pe :: string where
  "col_pe = ''shiyinglv''"

subsection \<open>Gate 1: fundamental score\<close>

definition gate1_score :: "dataframe \<Rightarrow> int" where
  "gate1_score funda =
     (case funda of
        None \<Rightarrow> 0
      | Some rows \<Rightarrow>
          if length rows = 0 then 0
          else
            let row = last rows;
                score = 0;
                score = (if row_get row col_debt_ratio 100 < 70 then score + 2 else score);
                score = (if row_get row col_current_ratio 0 > 1 then score + 1 else score);
                score = (if row_get row col_roe 0 > 10 then score + 2 else score);
                score = (if row_get row col_operating_cash_flow (- 1) > 0 then score + 2 else score);
                score = (if row_get row col_net_profit (- 1) < 0 then score - 2 else score)
            in max score 0)"

subsection \<open>Gate 2: growth-value priority\<close>

definition gate2_priority :: "dataframe \<Rightarrow> int" where
  "gate2_priority funda =
     (case funda of
        None \<Rightarrow> 0
      | Some rows \<Rightarrow>
          if length rows < 2 then 0
          else
            let row = last rows;
                growth = row_get row col_net_profit_yoy 0;
                pe = row_get row col_pe 100
            in if growth \<le> 0 then 0
               else if growth > 30 \<and> pe < 20 then 3
               else if growth > 20 then 2
               else if growth > 10 then 1
               else 0)"

subsection \<open>Data classes of the strategy integration\<close>

datatype Quadrant = TOP_RIGHT | BOTTOM_RIGHT | TOP_LEFT | BOTTOM_LEFT

datatype SignalLevel = LEVEL_1 | LEVEL_2 | LEVEL_3

text \<open>The \<^verbatim>\<open>value\<close> of a member of the enumeration \<^verbatim>\<open>SignalLevel\<close>.\<close>

fun level_value :: "SignalLevel \<Rightarrow> int" where
  "level_value LEVEL_1 = 1"
| "level_value LEVEL_2 = 2"
| "level_value LEVEL_3 = 3"

record RationalInvestmentScore =
  stock_code :: string
  stock_name :: string
  total_score :: real
  component_scores :: "(string \<times> real) list"
  survival_veto :: bool
  veto_reason :: "string option"
  analysis_date :: int

definition is_pass :: "RationalInvestmentScore \<Rightarrow> real \<Rightarrow> bool" where
  "is_pass self threshold \<longleftrightarrow> \<not> survival_veto self \<and> total_score self \<ge> threshold"

record GrowthValuationPosition =
  stock_code :: string
  stock_name :: string
  growth_rate :: real
  valuation :: real
  quadrant :: Quadrant
  peg_ratio :: "real option"
  industry_avg_growth :: "real option"
  industry_avg_valuation :: "real option"

definition is_in_target_quadrant :: "GrowthValuationPosition \<Rightarrow> Quadrant \<Rightarrow> bool" where
  "is_in_target_quadrant self target \<longleftrightarrow> quadrant self = target"

text \<open>
  Python's truth value of an \<^verbatim>\<open>Optional[float]\<close>: \<^verbatim>\<open>None\<close> and \<^verbatim>\<open>0.0\<close> are false, every
  other number is true.
\<close>

fun truthy :: "real option \<Rightarrow> bool" where
  "truthy None = False"
| "truthy (Some v) = (v \<noteq> 0)"

definition get_relative_position :: "GrowthValuationPosition \<Rightarrow> real \<times> real" where
  "get_relative_position self =
     (if truthy (industry_avg_growth self) \<and> truthy (industry_avg_valuation self)
      then (growth_rate self - the (industry_avg_growth self),
            valuation self - the (industry_avg_valuation self))
      else (0, 0))"

record ShortTermSignal =
  stock_code :: string
  stock_name :: string
  trend_conditions_met :: bool
  sentiment_conditions_met :: bool
  structure_conditions_met :: bool
  soft_conditions_met :: int
  soft_conditions_total :: int
  current_price :: real
  structure_low :: real
  first_target :: real
  second_target :: real
  stop_loss :: real
  signal_date :: int

definition all_hard_conditions_met :: "ShortTermSignal \<Rightarrow> bool" where
  "all_hard_conditions_met self \<longleftrightarrow>
     trend_conditions_met self \<and> sentiment_conditions_met self \<and> structure_conditions_met self"

text \<open>
  Python's \<^verbatim>\<open>/\<close> on floats raises \<^verbatim>\<open>ZeroDivisionError\<close> on a zero divisor; the model makes
  the fault a value.
\<close>

datatype error = ZeroDivisionError

definition py_truediv :: "real \<Rightarrow> real \<Rightarrow> error + real" where
  "py_truediv a b = (if b = 0 then Inl ZeroDivisionError else Inr (a / b))"

definition potential_return :: "ShortTermSignal \<Rightarrow> error + real \<times> real" where
  "potential_return self =
     (if current_price self > 0 then
        (case py_truediv (first_target self - current_price self) (current_price self) of
           Inl e \<Rightarrow> Inl e
         | Inr r1 \<Rightarrow>
            (case py_truediv (second_target self - current_price self) (current_price self) of
               Inl e \<Rightarrow> Inl e
             | Inr r2 \<Rightarrow> Inr (r1, r2)))
      else Inr (0, 0))"

definition risk_reward_ratio :: "ShortTermSignal \<Rightarrow> error + real" where
  "risk_reward_ratio self =
     (let potential_gain = first_target self - current_price self;
          potential_loss = current_price self - ShortTermSignal.stop_loss self
      in if potential_loss > 0 then py_truediv potential_gain potential_loss
         else Inr 0)"

subsection \<open>The strategy integrator\<close>

text \<open>
  The integrator object holds the two values its constructor reads from the configuration.
\<close>

record StrategyIntegrator =
  rational_threshold :: real
  target_quadrant :: Quadrant

text \<open>The integrator built from \<^verbatim>\<open>_get_default_config\<close>.\<close>

definition default_integrator :: StrategyIntegrator where
  "default_integrator = \<lparr>rational_threshold = 7.5, target_quadrant = BOTTOM_RIGHT\<rparr>"

definition determine_signal_level :: "bool \<Rightarrow> bool \<Rightarrow> bool \<Rightarrow> SignalLevel" where
  "determine_signal_level pass_rational pass_growth pass_short_term =
     (if pass_rational \<and> pass_growth \<and> pass_short_term then LEVEL_1
      else if pass_growth \<and> pass_short_term then LEVEL_2
      else if pass_rational then LEVEL_3
      else LEVEL_3)"

definition calculate_confidence_score ::
  "StrategyIntegrator \<Rightarrow> RationalInvestmentScore \<Rightarrow> GrowthValuationPosition \<Rightarrow>
   ShortTermSignal \<Rightarrow> bool \<Rightarrow> real" where
  "calculate_confidence_score self rational growth short_term pass_all =
     (let score = 0;
          rational_score_norm = min (total_score rational / 10) 1;
          score = score + rational_score_norm * 4;
          score = (if quadrant growth = target_quadrant self then score + 3
                   else if truthy (peg_ratio growth) \<and> the (peg_ratio growth) < 1 then score + 2
                   else score + 1);
          score = (if all_hard_conditions_met short_term then score + 2 else score);
          score = (if soft_conditions_met short_term \<ge> 3 then score + 1 else score);
          score = (if pass_all then score + 1 else score)
      in min score 10)"

definition calculate_position_size :: "SignalLevel \<Rightarrow> real \<Rightarrow> real \<Rightarrow> real" where
  "calculate_position_size signal_level confidence_score risk_reward_ratio' =
     (let base_position =
            (if signal_level = LEVEL_1 then 0.04
             else if signal_level = LEVEL_2 then 0.02
             else 0.01);
          confidence_multiplier = confidence_score / 10;
          rr_multiplier =
            (if risk_reward_ratio' > 2 then 1.2
             else if risk_reward_ratio' > 1.5 then 1
             else 0.8);
          final_position = base_position * confidence_multiplier * rr_multiplier;
          max_position = 0.08
      in min final_position max_position)"

record IntegratedSignal =
  stock_code :: string
  stock_name :: string
  rational_investment :: RationalInvestmentScore
  growth_valuation :: GrowthValuationPosition
  short_term :: ShortTermSignal
  signal_level :: SignalLevel
  pass_all_strategies :: bool
  suggested_position :: real
  entry_price_range :: "real \<times> real"
  targets :: "real list"
  stop_loss :: real
  holding_period :: "int \<times> int"
  analysis_date :: int
  confidence_score :: real

text \<open>
  The lookup dictionaries \<^verbatim>\<open>{s.stock_code: s for s in xs}\<close>: a later record of the same code
  replaces an earlier one.
\<close>

definition dict_by :: "('a \<Rightarrow> string) \<Rightarrow> 'a list \<Rightarrow> (string \<rightharpoonup> 'a)" where
  "dict_by key xs = fold (\<lambda>s m. m(key s \<mapsto> s)) xs Map.empty"

text \<open>
  The body of the loop for one code whose three verdicts exist. The time stamp \<open>now\<close>
  stands for the \<^verbatim>\<open>datetime.now\<close> default of \<^verbatim>\<open>analysis_date\<close>.
\<close>

definition make_signal ::
  "StrategyIntegrator \<Rightarrow> int \<Rightarrow> string \<Rightarrow> RationalInvestmentScore \<Rightarrow>
   GrowthValuationPosition \<Rightarrow> ShortTermSignal \<Rightarrow> error + IntegratedSignal" where
  "make_signal self now code rational growth short_term' =
     (let pass_rational = is_pass rational (rational_threshold self);
          pass_growth = is_in_target_quadrant growth (target_quadrant self);
          pass_short_term = all_hard_conditions_met short_term';
          signal_level = determine_signal_level pass_rational pass_growth pass_short_term;
          pass_all = (pass_rational \<and> pass_growth \<and> pass_short_term);
          confidence_score = calculate_confidence_score self rational growth short_term' pass_all
      in case risk_reward_ratio short_term' of
           Inl e \<Rightarrow> Inl e
         | Inr rr \<Rightarrow>
             (let suggested_position = calculate_position_size signal_level confidence_score rr
              in Inr \<lparr>IntegratedSignal.stock_code = code,
                      IntegratedSignal.stock_name = RationalInvestmentScore.stock_name rational,
                      rational_investment = rational,
                      growth_valuation = growth,
                      short_term = short_term',
                      signal_level = signal_level,
                      pass_all_strategies = pass_all,
                      suggested_position = suggested_position,
                      entry_price_range =
                        (current_price short_term' * 0.98, current_price short_term' * 1.02),
                      targets = [first_target short_term', second_target short_term'],
                      IntegratedSignal.stop_loss = ShortTermSignal.stop_loss short_term',
                      holding_period = (5, 20),
                      IntegratedSignal.analysis_date = now,
                      confidence_score = confidence_score\<rparr>))"

text \<open>
  The loop \<^verbatim>\<open>for code in all_codes\<close>. \<open>all_codes\<close> is a Python set, so the order of the
  iteration is not fixed by the program: the model takes the sequence in which the codes
  are visited as an argument. A code without one of the three verdicts is skipped.
\<close>

fun integrate_loop ::
  "StrategyIntegrator \<Rightarrow> int \<Rightarrow> (string \<rightharpoonup> RationalInvestmentScore) \<Rightarrow>
   (string \<rightharpoonup> GrowthValuationPosition) \<Rightarrow> (string \<rightharpoonup> ShortTermSignal) \<Rightarrow>
   string list \<Rightarrow> IntegratedSignal list \<Rightarrow> error + IntegratedSignal list" where
  "integrate_loop self now rational_dict growth_dict short_term_dict [] integrated_signals =
     Inr integrated_signals"
| "integrate_loop self now rational_dict growth_dict short_term_dict (code # codes)
     integrated_signals =
     (case rational_dict code of
        None \<Rightarrow> integrate_loop self now rational_dict growth_dict short_term_dict codes
                  integrated_signals
      | Some rational \<Rightarrow>
       (case growth_dict code of
          None \<Rightarrow> integrate_loop self now rational_dict growth_dict short_term_dict codes
                    integrated_signals
        | Some growth \<Rightarrow>
         (case short_term_dict code of
            None \<Rightarrow> integrate_loop self now rational_dict growth_dict short_term_dict codes
                      integrated_signals
          | Some short_term' \<Rightarrow>
             (case make_signal self now code rational growth short_term' of
                Inl e \<Rightarrow> Inl e
              | Inr integrated_signal \<Rightarrow>
                  integrate_loop self now rational_dict growth_dict short_term_dict codes
                    (integrated_signals @ [integrated_signal])))))"

text \<open>
  \<^verbatim>\<open>list.sort(key=..., reverse=True)\<close>: a stable sort into descending order of the key, the
  pair of the level's number and the confidence, compared lexicographically.
\<close>

definition sort_key_of :: "IntegratedSignal \<Rightarrow> int \<times> real" where
  "sort_key_of x = (level_value (signal_level x), confidence_score x)"

definition sort_reverse :: "IntegratedSignal list \<Rightarrow> IntegratedSignal list" where
  "sort_reverse xs = rev (sort_key sort_key_of (rev xs))"

text \<open>The set of all codes of the three dictionaries and a sequence visiting it.\<close>

definition all_codes_set ::
  "RationalInvestmentScore list \<Rightarrow> GrowthValuationPosition list \<Rightarrow> ShortTermSignal list \<Rightarrow>
   string set" where
  "all_codes_set rational_scores growth_positions short_term_signals =
     dom (dict_by RationalInvestmentScore.stock_code rational_scores)
     \<union> dom (dict_by GrowthValuationPosition.stock_code growth_positions)
     \<union> dom (dict_by ShortTermSignal.stock_code short_term_signals)"

definition iterates :: "string list \<Rightarrow> string set \<Rightarrow> bool" where
  "iterates codes S \<longleftrightarrow> distinct codes \<and> set codes = S"

definition integrate_strategies ::
  "StrategyIntegrator \<Rightarrow> int \<Rightarrow> string list \<Rightarrow> RationalInvestmentScore list \<Rightarrow>
   GrowthValuationPosition list \<Rightarrow> ShortTermSignal list \<Rightarrow> error + IntegratedSignal list" where
  "integrate_strategies self now all_codes rational_scores growth_positions short_term_signals =
     (let rational_dict = dict_by RationalInvestmentScore.stock_code rational_scores;
          growth_dict = dict_by GrowthValuationPosition.stock_code growth_positions;
          short_term_dict = dict_by ShortTermSignal.stock_code short_term_signals
      in case integrate_loop self now rational_dict growth_dict short_term_dict all_codes [] of
           Inl e \<Rightarrow> Inl e
         | Inr integrated_signals \<Rightarrow> Inr (sort_reverse integrated_signals))"

subsection \<open>Example verdicts\<close>

text \<open>
  Verdicts of the three kinds for the concrete runs below, in the manner of
  \<^verbatim>\<open>DataAdapter.create_sample_data\<close>: only the fields that the integrator reads vary. The
  timing verdict has a current price of 10, targets of 12 and 14 and a stop-loss of 9,
  hence a risk/reward ratio of 2.
\<close>

definition example_rational :: "string \<Rightarrow> real \<Rightarrow> RationalInvestmentScore" where
  "example_rational code score =
     \<lparr>RationalInvestmentScore.stock_code = code, RationalInvestmentScore.stock_name = code,
      total_score = score, component_scores = [], survival_veto = False, veto_reason = None,
      RationalInvestmentScore.analysis_date = 0\<rparr>"

definition example_growth :: "string \<Rightarrow> Quadrant \<Rightarrow> real option \<Rightarrow> GrowthValuationPosition" where
  "example_growth code q peg =
     \<lparr>GrowthValuationPosition.stock_code = code, GrowthValuationPosition.stock_name = code,
      growth_rate = 25, valuation = 15, quadrant = q, peg_ratio = peg,
      industry_avg_growth = None, industry_avg_valuation = None\<rparr>"

definition example_short_term :: "string \<Rightarrow> bool \<Rightarrow> int \<Rightarrow> ShortTermSignal" where
  "example_short_term code hard soft =
     \<lparr>ShortTermSignal.stock_code = code, ShortTermSignal.stock_name = code,
      trend_conditions_met = hard, sentiment_conditions_met = hard,
      structure_conditions_met = hard, soft_conditions_met = soft, soft_conditions_total = 4,
      current_price = 10, structure_low = 9, first_target = 12, second_target = 14,
      ShortTermSignal.stop_loss = 9, signal_date = 0\<rparr>"

section \<open>The gates\<close>

text \<open>
  C8. For every sequence of fundamental snapshots the score of the fundamental gate is at
  least 0, and for a missing (\<^verbatim>\<open>None\<close>) or empty input it is exactly 0.
\<close>

theorem gate1_score_nonneg:
  "0 \<le> gate1_score funda \<and> gate1_score None = 0 \<and> gate1_score (Some []) = 0"
  by (simp add: gate1_score_def Let_def split: option.split)

text \<open>
  The clamp is not idle: a snapshot with a leverage of 80 and a loss has the raw total
  \<open>-2\<close> and the score 0.
\<close>

lemma gate1_score_clamps_negative_total:
  "gate1_score (Some [[col_debt_ratio \<mapsto> 80, col_net_profit \<mapsto> - 5]]) = 0"
  by (simp add: gate1_score_def row_get_def Let_def col_debt_ratio_def col_net_profit_def
      col_current_ratio_def col_roe_def col_operating_cash_flow_def)

text \<open>The gate on two or more snapshots, in terms of the two cells it reads.\<close>

lemma gate2_priority_Some:
  "gate2_priority (Some rows) =
     (if length rows < 2 then 0
      else if row_get (last rows) col_net_profit_yoy 0 \<le> 0 then 0
      else if row_get (last rows) col_net_profit_yoy 0 > 30 \<and> row_get (last rows) col_pe 100 < 20
        then 3
      else if row_get (last rows) col_net_profit_yoy 0 > 20 then 2
      else if row_get (last rows) col_net_profit_yoy 0 > 10 then 1
      else 0)"
  by (simp add: gate2_priority_def Let_def)

lemma gate2_priority_None: "gate2_priority None = 0"
  by (simp add: gate2_priority_def)

lemma gate2_priority_le_3: "gate2_priority funda \<le> 3"
  by (cases funda) (simp_all add: gate2_priority_None gate2_priority_Some)

text \<open>
  C7. The growth-value gate returns priority 0 for a missing input and for fewer than two
  snapshots, and for a growth figure that is zero or negative, whatever the valuation.
  Among inputs with two or more snapshots and positive growth, the priority is
  non-decreasing in the growth at equal valuation. Priority 3 is returned exactly when
  there are two or more snapshots, the growth exceeds 30 and the valuation is under 20; a
  growth over 30 without the low valuation gets at most 2, and no input gets more than 3.
\<close>

theorem gate2_priority_spec:
  "gate2_priority None = 0
   \<and> (length rows < 2 \<longrightarrow> gate2_priority (Some rows) = 0)
   \<and> (row_get (last rows) col_net_profit_yoy 0 \<le> 0 \<longrightarrow> gate2_priority (Some rows) = 0)
   \<and> (2 \<le> length rows \<and> 2 \<le> length rows'
        \<and> row_get (last rows) col_pe 100 = row_get (last rows') col_pe 100
        \<and> 0 < row_get (last rows) col_net_profit_yoy 0
        \<and> row_get (last rows) col_net_profit_yoy 0 \<le> row_get (last rows') col_net_profit_yoy 0
      \<longrightarrow> gate2_priority (Some rows) \<le> gate2_priority (Some rows'))
   \<and> (gate2_priority (Some rows) = 3 \<longleftrightarrow>
        2 \<le> length rows \<and> row_get (last rows) col_net_profit_yoy 0 > 30
        \<and> row_get (last rows) col_pe 100 < 20)
   \<and> (row_get (last rows) col_net_profit_yoy 0 > 30 \<and> \<not> row_get (last rows) col_pe 100 < 20
      \<longrightarrow> gate2_priority (Some rows) \<le> 2)
   \<and> gate2_priority funda \<le> 3"
  unfolding gate2_priority_Some
  by (intro conjI impI; simp add: gate2_priority_None gate2_priority_le_3)

text \<open>
  The theorem at two histories of two snapshots each, both with a valuation of 15: a growth
  of 25 gets priority 2 and a growth of 35 gets priority 3.
\<close>

theorem gate2_priority_spec_witness:
  "gate2_priority (Some [Map.empty, [col_net_profit_yoy \<mapsto> 25, col_pe \<mapsto> 15]])
     \<le> gate2_priority (Some [Map.empty, [col_net_profit_yoy \<mapsto> 35, col_pe \<mapsto> 15]])
   \<and> gate2_priority (Some [Map.empty, [col_net_profit_yoy \<mapsto> 35, col_pe \<mapsto> 15]]) = 3
   \<and> gate2_priority (Some [[col_net_profit_yoy \<mapsto> 35, col_pe \<mapsto> 15]]) = 0
   \<and> gate2_priority (Some [Map.empty, [col_net_profit_yoy \<mapsto> - 4, col_pe \<mapsto> 15]]) = 0
   \<and> gate2_priority (Some [Map.empty, [col_net_profit_yoy \<mapsto> 35, col_pe \<mapsto> 40]]) \<le> 2"
  using gate2_priority_spec
    [of "[Map.empty, [col_net_profit_yoy \<mapsto> 25, col_pe \<mapsto> 15]]"
        "[Map.empty, [col_net_profit_yoy \<mapsto> 35, col_pe \<mapsto> 15]]"]
    gate2_priority_spec
    [of "[Map.empty, [col_net_profit_yoy \<mapsto> 35, col_pe \<mapsto> 15]]"]
    gate2_priority_spec
    [of "[[col_net_profit_yoy \<mapsto> 35, col_pe \<mapsto> 15]]"]
    gate2_priority_spec
    [of "[Map.empty, [col_net_profit_yoy \<mapsto> - 4, col_pe \<mapsto> 15]]"]
    gate2_priority_spec
    [of "[Map.empty, [col_net_profit_yoy \<mapsto> 35, col_pe \<mapsto> 40]]"]
  by (simp add: row_get_def col_net_profit_yoy_def col_pe_def)

section \<open>Derived properties of the verdicts\<close>

text \<open>
  C9 (fails on the code). For a position whose two industry averages are both present the
  claim promises the pair of differences. The test \<^verbatim>\<open>if self.industry_avg_growth and
  self.industry_avg_valuation\<close> takes an average of \<open>0.0\<close> for a missing one: with a growth
  of 5 against an industry growth of 0 and a valuation of 20 against an industry valuation
  of 15, the code returns \<open>(0, 0)\<close>, not \<open>(5, 5)\<close>.
\<close>

theorem get_relative_position_zero_average:
  "get_relative_position
     \<lparr>GrowthValuationPosition.stock_code = ''600000'',
      GrowthValuationPosition.stock_name = ''A'',
      growth_rate = 5, valuation = 20, quadrant = BOTTOM_RIGHT, peg_ratio = None,
      industry_avg_growth = Some 0, industry_avg_valuation = Some 15\<rparr> = (0, 0)"
  by (simp add: get_relative_position_def)

text \<open>What the code does: the differences when both averages are present and not zero.\<close>

lemma get_relative_position_cases:
  "get_relative_position self =
     (case (industry_avg_growth self, industry_avg_valuation self) of
        (Some ig, Some iv) \<Rightarrow>
          if ig \<noteq> 0 \<and> iv \<noteq> 0 then (growth_rate self - ig, valuation self - iv) else (0, 0)
      | _ \<Rightarrow> (0, 0))"
  by (simp add: get_relative_position_def split: option.split)

text \<open>The two derived properties of a timing verdict never fail.\<close>

lemma potential_return_eq:
  "potential_return s =
     Inr (if current_price s > 0
          then ((first_target s - current_price s) / current_price s,
                (second_target s - current_price s) / current_price s)
          else (0, 0))"
  by (simp add: potential_return_def py_truediv_def)

lemma risk_reward_ratio_eq:
  "risk_reward_ratio s =
     Inr (if current_price s - ShortTermSignal.stop_loss s > 0
          then (first_target s - current_price s)
               / (current_price s - ShortTermSignal.stop_loss s)
          else 0)"
  by (simp add: risk_reward_ratio_def py_truediv_def Let_def)

text \<open>
  C6. For every timing verdict, \<^verbatim>\<open>potential_return\<close> is \<open>(0, 0)\<close> when the current price is
  not positive, and \<^verbatim>\<open>risk_reward_ratio\<close> is 0 when the current price minus the stop-loss
  is not positive, that is when the stop-loss is at or above the current price. Both
  always return a value, never \<^verbatim>\<open>ZeroDivisionError\<close>: the quotients are taken only when the
  divisor (the current price, the potential loss) is positive.
\<close>

theorem short_term_derivations_safe:
  "(\<exists>r. potential_return s = Inr r)
   \<and> (\<exists>r. risk_reward_ratio s = Inr r)
   \<and> (current_price s \<le> 0 \<longrightarrow> potential_return s = Inr (0, 0))
   \<and> (current_price s - ShortTermSignal.stop_loss s \<le> 0 \<longrightarrow> risk_reward_ratio s = Inr 0)
   \<and> (ShortTermSignal.stop_loss s \<ge> current_price s \<longrightarrow> risk_reward_ratio s = Inr 0)
   \<and> (current_price s > 0 \<longrightarrow>
        potential_return s =
          Inr ((first_target s - current_price s) / current_price s,
               (second_target s - current_price s) / current_price s))
   \<and> (current_price s - ShortTermSignal.stop_loss s > 0 \<longrightarrow>
        risk_reward_ratio s =
          Inr ((first_target s - current_price s)
               / (current_price s - ShortTermSignal.stop_loss s)))"
  by (simp add: potential_return_eq risk_reward_ratio_eq)

text \<open>The scenario of a current price of 0 with a stop-loss of 5.\<close>

theorem short_term_derivations_safe_witness:
  "potential_return
     \<lparr>ShortTermSignal.stock_code = ''600000'', ShortTermSignal.stock_name = ''A'',
      trend_conditions_met = True, sentiment_conditions_met = True,
      structure_conditions_met = True, soft_conditions_met = 3, soft_conditions_total = 4,
      current_price = 0, structure_low = 4, first_target = 12, second_target = 14,
      ShortTermSignal.stop_loss = 5, signal_date = 0\<rparr> = Inr (0, 0)
   \<and> risk_reward_ratio
     \<lparr>ShortTermSignal.stock_code = ''600000'', ShortTermSignal.stock_name = ''A'',
      trend_conditions_met = True, sentiment_conditions_met = True,
      structure_conditions_met = True, soft_conditions_met = 3, soft_conditions_total = 4,
      current_price = 0, structure_low = 4, first_target = 12, second_target = 14,
      ShortTermSignal.stop_loss = 5, signal_date = 0\<rparr> = Inr 0"
  using short_term_derivations_safe
    [of "\<lparr>ShortTermSignal.stock_code = ''600000'', ShortTermSignal.stock_name = ''A'',
      trend_conditions_met = True, sentiment_conditions_met = True,
      structure_conditions_met = True, soft_conditions_met = 3, soft_conditions_total = 4,
      current_price = 0, structure_low = 4, first_target = 12, second_target = 14,
      ShortTermSignal.stop_loss = 5, signal_date = 0\<rparr>"]
  by simp

section \<open>Signal level, confidence and position size\<close>

text \<open>The confidence score as one sum, and its bounds.\<close>

lemma calculate_confidence_score_sum:
  "calculate_confidence_score self r g st pass_all =
     min (min (total_score r / 10) 1 * 4
          + (if quadrant g = target_quadrant self then 3
             else if (case peg_ratio g of None \<Rightarrow> False | Some p \<Rightarrow> p \<noteq> 0 \<and> p < 1) then 2
             else 1)
          + (if all_hard_conditions_met st then 2 else 0)
          + (if soft_conditions_met st \<ge> 3 then 1 else 0)
          + (if pass_all then 1 else 0)) 10"
  by (cases "peg_ratio g") (simp_all add: calculate_confidence_score_def Let_def)

lemma calculate_confidence_score_le_10: "calculate_confidence_score self r g st pass_all \<le> 10"
  by (simp add: calculate_confidence_score_def Let_def)

lemma calculate_confidence_score_nonneg:
  "0 \<le> total_score r \<Longrightarrow> 0 \<le> calculate_confidence_score self r g st pass_all"
  unfolding calculate_confidence_score_sum by (simp add: min_def)

text \<open>
  C3 (fails on the code). The docstring of \<^verbatim>\<open>_calculate_confidence_score\<close> promises a score
  in 0-10 and a fundamental contribution in 0-4, and the claim a result in \<open>[0, 10]\<close> for
  every input. The function clamps \<^verbatim>\<open>total_score / 10\<close> from above only and the sum from above
  only: a verdict with a total score of \<open>-10\<close>, outside the target quadrant, without a PEG
  ratio and without timing conditions gets the confidence \<open>-4 + 1 = -3\<close>. Besides, the test
  \<^verbatim>\<open>growth.peg_ratio and growth.peg_ratio < 1.0\<close> takes a PEG ratio of \<open>0.0\<close> for a missing one:
  with a total score of 5 and a PEG ratio of 0 outside the target quadrant the code gives
  \<open>2 + 1 = 3\<close>, where the claim gives the 2 points of a PEG ratio under 1, hence 4.
\<close>

theorem calculate_confidence_score_out_of_range:
  "calculate_confidence_score default_integrator (example_rational ''A'' (- 10))
     (example_growth ''A'' TOP_LEFT None) (example_short_term ''A'' False 0) False = - 3
   \<and> calculate_confidence_score default_integrator (example_rational ''A'' 5)
     (example_growth ''A'' TOP_LEFT (Some 0)) (example_short_term ''A'' False 0) False = 3"
  by (simp add: calculate_confidence_score_def Let_def example_rational_def example_growth_def
      example_short_term_def default_integrator_def all_hard_conditions_met_def)

text \<open>
  The two bounds of the suggested position, for a confidence that is not negative.
\<close>

lemma calculate_position_size_bounds:
  "0 \<le> c \<Longrightarrow> 0 \<le> calculate_position_size lvl c rr \<and> calculate_position_size lvl c rr \<le> 0.08"
  by (simp add: calculate_position_size_def Let_def)



text \<open>
  The position that the integrator suggests: for a fundamental verdict whose total score
  is not negative, the signal built by the loop has a confidence from 0 to 10 and a
  suggested position from 0 to 0.08.
\<close>

lemma make_signal_position_in_range:
  assumes "0 \<le> total_score r" and "make_signal self now code r g st = Inr sig"
  shows "0 \<le> confidence_score sig \<and> confidence_score sig \<le> 10
     \<and> 0 \<le> suggested_position sig \<and> suggested_position sig \<le> 0.08"
proof -
  let ?c = "calculate_confidence_score self r g st
      (is_pass r (rational_threshold self) \<and> is_in_target_quadrant g (target_quadrant self)
       \<and> all_hard_conditions_met st)"
  from assms(2) have "confidence_score sig = ?c"
    and "\<exists>lvl rr. suggested_position sig = calculate_position_size lvl ?c rr"
    by (auto simp add: make_signal_def Let_def risk_reward_ratio_eq intro!: exI)
  with calculate_confidence_score_nonneg [OF assms(1), of self g st]
    calculate_confidence_score_le_10 [of self r g st]
    calculate_position_size_bounds
  show ?thesis by auto
qed

text \<open>
  Outside this range the function has no lower bound of its own: the confidence \<open>-3\<close>
  that a total score of \<open>-10\<close> produces above gives a negative position.
\<close>

lemma calculate_position_size_negative_confidence:
  "calculate_position_size LEVEL_3 (- 3) 0 = - 0.0024"
  by (simp add: calculate_position_size_def Let_def)

text \<open>
  C10. For every signal level, every confidence score in \<open>[0, 10]\<close> and every risk/reward
  ratio, the suggested position is at most 0.048, and the cap at 0.08 does not change the
  product of base fraction, confidence multiplier and risk/reward multiplier.
\<close>

theorem calculate_position_size_cap_idle:
  "0 \<le> c \<Longrightarrow> c \<le> 10 \<Longrightarrow>
     calculate_position_size lvl c rr \<le> 0.048
     \<and> calculate_position_size lvl c rr =
         (if lvl = LEVEL_1 then 0.04 else if lvl = LEVEL_2 then 0.02 else 0.01) * (c / 10)
         * (if rr > 2 then 1.2 else if rr > 1.5 then 1 else 0.8)"
  by (cases lvl) (auto simp add: calculate_position_size_def Let_def min_def)

theorem calculate_position_size_cap_idle_witness:
  "(0::real) \<le> 10 \<and> (10::real) \<le> 10 \<and> calculate_position_size LEVEL_1 10 3 = 0.048"
  using calculate_position_size_cap_idle [of 10 LEVEL_1 3] by simp

section \<open>The join of the three verdict collections\<close>

text \<open>The dictionary of a list of verdicts: its keys are the codes of the list.\<close>

lemma dom_fold_upd:
  "dom (fold (\<lambda>s m. m(key s \<mapsto> s)) xs m0) = dom m0 \<union> key ` set xs"
  by (induction xs arbitrary: m0) auto

lemma dom_dict_by: "dom (dict_by key xs) = key ` set xs"
  by (simp add: dict_by_def dom_fold_upd)

lemma fold_upd_Some:
  "fold (\<lambda>s m. m(key s \<mapsto> s)) xs m0 k = Some v \<Longrightarrow> v \<in> set xs \<and> key v = k \<or> m0 k = Some v"
proof (induction xs arbitrary: m0)
  case Nil
  then show ?case by simp
next
  case (Cons x xs)
  from Cons.prems have "fold (\<lambda>s m. m(key s \<mapsto> s)) xs (m0(key x \<mapsto> x)) k = Some v"
    by (simp del: fun_upd_apply)
  from Cons.IH [OF this] show ?case
    by (auto split: if_splits)
qed

lemma dict_by_Some: "dict_by key xs k = Some v \<Longrightarrow> v \<in> set xs \<and> key v = k"
  using fold_upd_Some [of key xs Map.empty k v] by (simp add: dict_by_def)

text \<open>
  The body of the loop never fails, since \<^verbatim>\<open>risk_reward_ratio\<close> never does, and the signal
  it builds carries the code, the three verdicts, and the level and confidence computed
  from them.
\<close>

lemma make_signal_eq:
  "\<exists>sig. make_signal self now code r g st = Inr sig
     \<and> IntegratedSignal.stock_code sig = code
     \<and> IntegratedSignal.stock_name sig = RationalInvestmentScore.stock_name r
     \<and> rational_investment sig = r \<and> growth_valuation sig = g \<and> short_term sig = st
     \<and> signal_level sig =
         determine_signal_level (is_pass r (rational_threshold self))
           (is_in_target_quadrant g (target_quadrant self)) (all_hard_conditions_met st)
     \<and> pass_all_strategies sig =
         (is_pass r (rational_threshold self) \<and> is_in_target_quadrant g (target_quadrant self)
          \<and> all_hard_conditions_met st)
     \<and> confidence_score sig =
         calculate_confidence_score self r g st
           (is_pass r (rational_threshold self) \<and> is_in_target_quadrant g (target_quadrant self)
            \<and> all_hard_conditions_met st)"
  by (simp add: make_signal_def Let_def risk_reward_ratio_eq)

text \<open>
  The loop appends one signal for each visited code that has all three verdicts, in the
  order of the visit.
\<close>

lemma integrate_loop_eq:
  "\<exists>sigs. integrate_loop self now rd gd sd codes acc = Inr (acc @ sigs)
     \<and> map IntegratedSignal.stock_code sigs
         = filter (\<lambda>c. c \<in> dom rd \<and> c \<in> dom gd \<and> c \<in> dom sd) codes
     \<and> (\<forall>sig \<in> set sigs. \<exists>r g st.
           rd (IntegratedSignal.stock_code sig) = Some r
           \<and> gd (IntegratedSignal.stock_code sig) = Some g
           \<and> sd (IntegratedSignal.stock_code sig) = Some st
           \<and> make_signal self now (IntegratedSignal.stock_code sig) r g st = Inr sig)"
proof (induction codes arbitrary: acc)
  case Nil
  then show ?case by simp
next
  case (Cons code codes)
  show ?case
  proof (cases "code \<in> dom rd \<and> code \<in> dom gd \<and> code \<in> dom sd")
    case False
    then have "integrate_loop self now rd gd sd (code # codes) acc
        = integrate_loop self now rd gd sd codes acc"
      by (auto split: option.splits)
    with Cons.IH [of acc] False show ?thesis by auto
  next
    case True
    then obtain r g st where l: "rd code = Some r" "gd code = Some g" "sd code = Some st"
      by auto
    from make_signal_eq [of self now code r g st]
    obtain sig where s: "make_signal self now code r g st = Inr sig"
      "IntegratedSignal.stock_code sig = code" by blast
    from Cons.IH [of "acc @ [sig]"] obtain sigs where
      i: "integrate_loop self now rd gd sd codes (acc @ [sig]) = Inr ((acc @ [sig]) @ sigs)"
      "map IntegratedSignal.stock_code sigs
         = filter (\<lambda>c. c \<in> dom rd \<and> c \<in> dom gd \<and> c \<in> dom sd) codes"
      "\<forall>sig \<in> set sigs. \<exists>r g st.
           rd (IntegratedSignal.stock_code sig) = Some r
           \<and> gd (IntegratedSignal.stock_code sig) = Some g
           \<and> sd (IntegratedSignal.stock_code sig) = Some st
           \<and> make_signal self now (IntegratedSignal.stock_code sig) r g st = Inr sig" by blast
    with l s True show ?thesis
      by (intro exI [of _ "sig # sigs"]) simp
  qed
qed

text \<open>The result of the whole function: the joined signals, sorted.\<close>

lemma integrate_strategies_eq:
  "\<exists>sigs. integrate_strategies self now all_codes rs gs ss = Inr (sort_reverse sigs)
     \<and> map IntegratedSignal.stock_code sigs
         = filter (\<lambda>c. c \<in> RationalInvestmentScore.stock_code ` set rs
                      \<and> c \<in> GrowthValuationPosition.stock_code ` set gs
                      \<and> c \<in> ShortTermSignal.stock_code ` set ss) all_codes
     \<and> (\<forall>sig \<in> set sigs. \<exists>r g st.
           dict_by RationalInvestmentScore.stock_code rs (IntegratedSignal.stock_code sig) = Some r
           \<and> dict_by GrowthValuationPosition.stock_code gs (IntegratedSignal.stock_code sig) = Some g
           \<and> dict_by ShortTermSignal.stock_code ss (IntegratedSignal.stock_code sig) = Some st
           \<and> make_signal self now (IntegratedSignal.stock_code sig) r g st = Inr sig)"
  using integrate_loop_eq [of self now "dict_by RationalInvestmentScore.stock_code rs"
      "dict_by GrowthValuationPosition.stock_code gs" "dict_by ShortTermSignal.stock_code ss"
      all_codes "[]"]
  by (auto simp: integrate_strategies_def Let_def dom_dict_by)

lemma iterates_all_codes:
  "iterates all_codes (all_codes_set rs gs ss) \<longleftrightarrow>
     distinct all_codes
     \<and> set all_codes = RationalInvestmentScore.stock_code ` set rs
         \<union> GrowthValuationPosition.stock_code ` set gs
         \<union> ShortTermSignal.stock_code ` set ss"
  by (simp add: iterates_def all_codes_set_def dom_dict_by)

text \<open>The descending stable sort permutes the signals and orders the keys.\<close>

lemma set_sort_reverse: "set (sort_reverse xs) = set xs"
  by (simp add: sort_reverse_def)

lemma distinct_map_sort_reverse:
  "distinct (map f (sort_reverse xs)) = distinct (map f xs)"
  by (simp add: sort_reverse_def distinct_map)

lemma sorted_sort_reverse: "sorted (rev (map sort_key_of (sort_reverse xs)))"
  by (simp add: sort_reverse_def rev_map [symmetric])


lemma integrate_strategies_result:
  assumes "iterates all_codes (all_codes_set rs gs ss)"
  shows "\<exists>sigs. integrate_strategies self now all_codes rs gs ss = Inr sigs
     \<and> IntegratedSignal.stock_code ` set sigs
         = RationalInvestmentScore.stock_code ` set rs
           \<inter> GrowthValuationPosition.stock_code ` set gs
           \<inter> ShortTermSignal.stock_code ` set ss
     \<and> distinct (map IntegratedSignal.stock_code sigs)
     \<and> sorted (rev (map sort_key_of sigs))
     \<and> (\<forall>sig \<in> set sigs. \<exists>r g st.
           dict_by RationalInvestmentScore.stock_code rs (IntegratedSignal.stock_code sig) = Some r
           \<and> dict_by GrowthValuationPosition.stock_code gs (IntegratedSignal.stock_code sig) = Some g
           \<and> dict_by ShortTermSignal.stock_code ss (IntegratedSignal.stock_code sig) = Some st
           \<and> make_signal self now (IntegratedSignal.stock_code sig) r g st = Inr sig)"
proof -
  from integrate_strategies_eq [of self now all_codes rs gs ss]
  obtain sigs where r:
    "integrate_strategies self now all_codes rs gs ss = Inr (sort_reverse sigs)"
    and c: "map IntegratedSignal.stock_code sigs
         = filter (\<lambda>c. c \<in> RationalInvestmentScore.stock_code ` set rs
                      \<and> c \<in> GrowthValuationPosition.stock_code ` set gs
                      \<and> c \<in> ShortTermSignal.stock_code ` set ss) all_codes"
    and j: "\<forall>sig \<in> set sigs. \<exists>r g st.
           dict_by RationalInvestmentScore.stock_code rs (IntegratedSignal.stock_code sig) = Some r
           \<and> dict_by GrowthValuationPosition.stock_code gs (IntegratedSignal.stock_code sig) = Some g
           \<and> dict_by ShortTermSignal.stock_code ss (IntegratedSignal.stock_code sig) = Some st
           \<and> make_signal self now (IntegratedSignal.stock_code sig) r g st = Inr sig"
    by blast
  from assms have d: "distinct all_codes"
    and u: "set all_codes = RationalInvestmentScore.stock_code ` set rs
         \<union> GrowthValuationPosition.stock_code ` set gs
         \<union> ShortTermSignal.stock_code ` set ss"
    by (simp_all add: iterates_all_codes)
  have "IntegratedSignal.stock_code ` set (sort_reverse sigs)
      = set (map IntegratedSignal.stock_code sigs)"
    by (simp add: set_sort_reverse)
  also have "\<dots> = RationalInvestmentScore.stock_code ` set rs
         \<inter> GrowthValuationPosition.stock_code ` set gs
         \<inter> ShortTermSignal.stock_code ` set ss"
    unfolding c using u by auto
  finally have m: "IntegratedSignal.stock_code ` set (sort_reverse sigs)
      = RationalInvestmentScore.stock_code ` set rs
         \<inter> GrowthValuationPosition.stock_code ` set gs
         \<inter> ShortTermSignal.stock_code ` set ss" .
  have "distinct (map IntegratedSignal.stock_code sigs)"
    unfolding c using d by simp
  then have "distinct (map IntegratedSignal.stock_code (sort_reverse sigs))"
    by (simp add: distinct_map_sort_reverse)
  with r m j show ?thesis
    by (simp add: set_sort_reverse sorted_sort_reverse)
qed

text \<open>Facts for running the integrator on the example verdicts.\<close>

lemma example_stock_code [simp]:
  "RationalInvestmentScore.stock_code (example_rational c x) = c"
  "GrowthValuationPosition.stock_code (example_growth c q p) = c"
  "ShortTermSignal.stock_code (example_short_term c h n) = c"
  by (simp_all add: example_rational_def example_growth_def example_short_term_def)

lemma dict_by_two:
  "key a \<noteq> key b \<Longrightarrow> dict_by key [a, b] = [key a \<mapsto> a, key b \<mapsto> b]"
  by (simp add: dict_by_def)


lemmas example_defs = example_rational_def example_growth_def example_short_term_def
  default_integrator_def is_pass_def is_in_target_quadrant_def all_hard_conditions_met_def

lemma example_signal_strong:
  "\<exists>sig. make_signal default_integrator now c (example_rational c 9)
           (example_growth c BOTTOM_RIGHT None) (example_short_term c True 3) = Inr sig
     \<and> IntegratedSignal.stock_code sig = c \<and> signal_level sig = LEVEL_1
     \<and> confidence_score sig = 10"
  using make_signal_eq [of default_integrator now c "example_rational c 9"
      "example_growth c BOTTOM_RIGHT None" "example_short_term c True 3"]
  by (auto simp add: example_defs determine_signal_level_def calculate_confidence_score_def
      Let_def)

lemma example_signal_weak:
  "\<exists>sig. make_signal default_integrator now c (example_rational c 5)
           (example_growth c TOP_LEFT None) (example_short_term c False 0) = Inr sig
     \<and> IntegratedSignal.stock_code sig = c \<and> signal_level sig = LEVEL_3
     \<and> confidence_score sig = 3"
  using make_signal_eq [of default_integrator now c "example_rational c 5"
      "example_growth c TOP_LEFT None" "example_short_term c False 0"]
  by (auto simp add: example_defs determine_signal_level_def calculate_confidence_score_def
      Let_def)

lemma example_signal_second:
  "\<exists>sig. make_signal default_integrator now c (example_rational c 5)
           (example_growth c BOTTOM_RIGHT None) (example_short_term c True 3) = Inr sig
     \<and> IntegratedSignal.stock_code sig = c \<and> signal_level sig = LEVEL_2
     \<and> confidence_score sig = 8"
  using make_signal_eq [of default_integrator now c "example_rational c 5"
      "example_growth c BOTTOM_RIGHT None" "example_short_term c True 3"]
  by (auto simp add: example_defs determine_signal_level_def calculate_confidence_score_def
      Let_def)

text \<open>
  C1. Whatever the order in which the set of all codes is visited,
  \<^verbatim>\<open>integrate_strategies\<close> returns a list, and a code has a signal in this list if and only
  if it is the code of a verdict in each of the three collections; no code has two signals.
\<close>

theorem integrate_strategies_join:
  assumes "iterates all_codes (all_codes_set rational_scores growth_positions short_term_signals)"
  shows "\<exists>sigs. integrate_strategies self now all_codes rational_scores growth_positions
             short_term_signals = Inr sigs
     \<and> (\<forall>code. code \<in> IntegratedSignal.stock_code ` set sigs \<longleftrightarrow>
           code \<in> RationalInvestmentScore.stock_code ` set rational_scores
           \<and> code \<in> GrowthValuationPosition.stock_code ` set growth_positions
           \<and> code \<in> ShortTermSignal.stock_code ` set short_term_signals)
     \<and> distinct (map IntegratedSignal.stock_code sigs)"
  using integrate_strategies_result [OF assms, of self now] by auto

text \<open>
  Three codes, of which only \<open>A\<close> has all three verdicts: \<open>B\<close> lacks the growth-valuation
  verdict and \<open>C\<close> has nothing else.
\<close>

theorem integrate_strategies_join_witness:
  "iterates [''A'', ''B'', ''C'']
     (all_codes_set [example_rational ''A'' 9, example_rational ''B'' 5]
        [example_growth ''A'' BOTTOM_RIGHT None, example_growth ''C'' TOP_LEFT None]
        [example_short_term ''A'' True 3, example_short_term ''B'' False 0])
   \<and> (\<exists>sigs. integrate_strategies default_integrator 0 [''A'', ''B'', ''C'']
        [example_rational ''A'' 9, example_rational ''B'' 5]
        [example_growth ''A'' BOTTOM_RIGHT None, example_growth ''C'' TOP_LEFT None]
        [example_short_term ''A'' True 3, example_short_term ''B'' False 0] = Inr sigs
      \<and> IntegratedSignal.stock_code ` set sigs = {''A''})"
proof -
  have h: "iterates [''A'', ''B'', ''C'']
     (all_codes_set [example_rational ''A'' 9, example_rational ''B'' 5]
        [example_growth ''A'' BOTTOM_RIGHT None, example_growth ''C'' TOP_LEFT None]
        [example_short_term ''A'' True 3, example_short_term ''B'' False 0])"
    by (auto simp add: iterates_all_codes)
  from integrate_strategies_join [OF h, of default_integrator 0] obtain sigs where
    r: "integrate_strategies default_integrator 0 [''A'', ''B'', ''C'']
        [example_rational ''A'' 9, example_rational ''B'' 5]
        [example_growth ''A'' BOTTOM_RIGHT None, example_growth ''C'' TOP_LEFT None]
        [example_short_term ''A'' True 3, example_short_term ''B'' False 0] = Inr sigs"
    and m: "\<And>code. code \<in> IntegratedSignal.stock_code ` set sigs \<longleftrightarrow>
           code \<in> RationalInvestmentScore.stock_code
                    ` set [example_rational ''A'' 9, example_rational ''B'' 5]
           \<and> code \<in> GrowthValuationPosition.stock_code
                    ` set [example_growth ''A'' BOTTOM_RIGHT None, example_growth ''C'' TOP_LEFT None]
           \<and> code \<in> ShortTermSignal.stock_code
                    ` set [example_short_term ''A'' True 3, example_short_term ''B'' False 0]"
    by blast
  have "IntegratedSignal.stock_code ` set sigs = {''A''}"
    by (rule set_eqI) (auto simp add: m)
  with h r show ?thesis by blast
qed

section \<open>The signal level of a joined instrument\<close>

text \<open>
  C2. Whatever the order of the visit, every signal of the result carries the three
  verdicts that the dictionaries hold for its code, and its level follows the decision
  table on them: level 1 when the fundamental verdict passes, the quadrant is the target
  and all hard timing conditions are met; otherwise level 2 when the quadrant is the
  target and all hard timing conditions are met; otherwise level 3, whether the
  fundamental verdict passes or not. No instrument with all three verdicts is dropped:
  every such code has a signal in the result.
\<close>

theorem integrate_strategies_level:
  assumes "iterates all_codes (all_codes_set rational_scores growth_positions short_term_signals)"
  shows "\<exists>sigs. integrate_strategies self now all_codes rational_scores growth_positions
             short_term_signals = Inr sigs
     \<and> (\<forall>sig \<in> set sigs.
          dict_by RationalInvestmentScore.stock_code rational_scores
              (IntegratedSignal.stock_code sig) = Some (rational_investment sig)
          \<and> dict_by GrowthValuationPosition.stock_code growth_positions
              (IntegratedSignal.stock_code sig) = Some (growth_valuation sig)
          \<and> dict_by ShortTermSignal.stock_code short_term_signals
              (IntegratedSignal.stock_code sig) = Some (short_term sig)
          \<and> signal_level sig =
              (if is_pass (rational_investment sig) (rational_threshold self)
                  \<and> quadrant (growth_valuation sig) = target_quadrant self
                  \<and> all_hard_conditions_met (short_term sig) then LEVEL_1
               else if quadrant (growth_valuation sig) = target_quadrant self
                  \<and> all_hard_conditions_met (short_term sig) then LEVEL_2
               else if is_pass (rational_investment sig) (rational_threshold self) then LEVEL_3
               else LEVEL_3))
     \<and> (\<forall>code. code \<in> RationalInvestmentScore.stock_code ` set rational_scores
           \<and> code \<in> GrowthValuationPosition.stock_code ` set growth_positions
           \<and> code \<in> ShortTermSignal.stock_code ` set short_term_signals
          \<longrightarrow> code \<in> IntegratedSignal.stock_code ` set sigs)"
proof -
  from integrate_strategies_result [OF assms, of self now] obtain sigs where
    r: "integrate_strategies self now all_codes rational_scores growth_positions
             short_term_signals = Inr sigs"
    and m: "IntegratedSignal.stock_code ` set sigs
         = RationalInvestmentScore.stock_code ` set rational_scores
           \<inter> GrowthValuationPosition.stock_code ` set growth_positions
           \<inter> ShortTermSignal.stock_code ` set short_term_signals"
    and j: "\<forall>sig \<in> set sigs. \<exists>r g st.
           dict_by RationalInvestmentScore.stock_code rational_scores
             (IntegratedSignal.stock_code sig) = Some r
           \<and> dict_by GrowthValuationPosition.stock_code growth_positions
             (IntegratedSignal.stock_code sig) = Some g
           \<and> dict_by ShortTermSignal.stock_code short_term_signals
             (IntegratedSignal.stock_code sig) = Some st
           \<and> make_signal self now (IntegratedSignal.stock_code sig) r g st = Inr sig"
    by blast
  have "dict_by RationalInvestmentScore.stock_code rational_scores
              (IntegratedSignal.stock_code sig) = Some (rational_investment sig)
          \<and> dict_by GrowthValuationPosition.stock_code growth_positions
              (IntegratedSignal.stock_code sig) = Some (growth_valuation sig)
          \<and> dict_by ShortTermSignal.stock_code short_term_signals
              (IntegratedSignal.stock_code sig) = Some (short_term sig)
          \<and> signal_level sig =
              (if is_pass (rational_investment sig) (rational_threshold self)
                  \<and> quadrant (growth_valuation sig) = target_quadrant self
                  \<and> all_hard_conditions_met (short_term sig) then LEVEL_1
               else if quadrant (growth_valuation sig) = target_quadrant self
                  \<and> all_hard_conditions_met (short_term sig) then LEVEL_2
               else if is_pass (rational_investment sig) (rational_threshold self) then LEVEL_3
               else LEVEL_3)" if "sig \<in> set sigs" for sig
  proof -
    from j that obtain r g st where
      l: "dict_by RationalInvestmentScore.stock_code rational_scores
             (IntegratedSignal.stock_code sig) = Some r"
         "dict_by GrowthValuationPosition.stock_code growth_positions
             (IntegratedSignal.stock_code sig) = Some g"
         "dict_by ShortTermSignal.stock_code short_term_signals
             (IntegratedSignal.stock_code sig) = Some st"
      and k: "make_signal self now (IntegratedSignal.stock_code sig) r g st = Inr sig"
      by blast
    from make_signal_eq [of self now "IntegratedSignal.stock_code sig" r g st] k
    have "rational_investment sig = r" "growth_valuation sig = g" "short_term sig = st"
      "signal_level sig =
         determine_signal_level (is_pass r (rational_threshold self))
           (is_in_target_quadrant g (target_quadrant self)) (all_hard_conditions_met st)"
      by auto
    with l show ?thesis
      by (simp add: determine_signal_level_def is_in_target_quadrant_def)
  qed
  with r m show ?thesis by auto
qed

text \<open>
  Two instruments with all three verdicts under the default configuration: \<open>A\<close> passes
  all three gates, \<open>B\<close> has a fundamental score of 5 under the threshold of 7.5 but is in
  the target quadrant with all hard conditions met.
\<close>

theorem integrate_strategies_level_witness:
  "iterates [''A'', ''B'']
     (all_codes_set [example_rational ''A'' 9, example_rational ''B'' 5]
        [example_growth ''A'' BOTTOM_RIGHT None, example_growth ''B'' BOTTOM_RIGHT None]
        [example_short_term ''A'' True 3, example_short_term ''B'' True 3])
   \<and> (\<exists>sigs. integrate_strategies default_integrator 0 [''A'', ''B'']
        [example_rational ''A'' 9, example_rational ''B'' 5]
        [example_growth ''A'' BOTTOM_RIGHT None, example_growth ''B'' BOTTOM_RIGHT None]
        [example_short_term ''A'' True 3, example_short_term ''B'' True 3] = Inr sigs
      \<and> (\<lambda>s. (IntegratedSignal.stock_code s, signal_level s)) ` set sigs
          = {(''A'', LEVEL_1), (''B'', LEVEL_2)})"
proof -
  have h: "iterates [''A'', ''B'']
     (all_codes_set [example_rational ''A'' 9, example_rational ''B'' 5]
        [example_growth ''A'' BOTTOM_RIGHT None, example_growth ''B'' BOTTOM_RIGHT None]
        [example_short_term ''A'' True 3, example_short_term ''B'' True 3])"
    by (auto simp add: iterates_all_codes)
  from integrate_strategies_level [OF h, of default_integrator 0] obtain sigs where
    r: "integrate_strategies default_integrator 0 [''A'', ''B'']
        [example_rational ''A'' 9, example_rational ''B'' 5]
        [example_growth ''A'' BOTTOM_RIGHT None, example_growth ''B'' BOTTOM_RIGHT None]
        [example_short_term ''A'' True 3, example_short_term ''B'' True 3] = Inr sigs"
    and lv: "\<And>sig. sig \<in> set sigs \<Longrightarrow>
          [''A'' \<mapsto> example_rational ''A'' 9, ''B'' \<mapsto> example_rational ''B'' 5]
              (IntegratedSignal.stock_code sig) = Some (rational_investment sig)
          \<and> [''A'' \<mapsto> example_growth ''A'' BOTTOM_RIGHT None,
              ''B'' \<mapsto> example_growth ''B'' BOTTOM_RIGHT None]
              (IntegratedSignal.stock_code sig) = Some (growth_valuation sig)
          \<and> [''A'' \<mapsto> example_short_term ''A'' True 3, ''B'' \<mapsto> example_short_term ''B'' True 3]
              (IntegratedSignal.stock_code sig) = Some (short_term sig)
          \<and> signal_level sig =
              (if is_pass (rational_investment sig) (rational_threshold default_integrator)
                  \<and> quadrant (growth_valuation sig) = target_quadrant default_integrator
                  \<and> all_hard_conditions_met (short_term sig) then LEVEL_1
               else if quadrant (growth_valuation sig) = target_quadrant default_integrator
                  \<and> all_hard_conditions_met (short_term sig) then LEVEL_2
               else if is_pass (rational_investment sig) (rational_threshold default_integrator)
                 then LEVEL_3
               else LEVEL_3)"
    and nd: "''A'' \<in> IntegratedSignal.stock_code ` set sigs"
      "''B'' \<in> IntegratedSignal.stock_code ` set sigs"
    by (auto simp add: dict_by_two)
  have c: "IntegratedSignal.stock_code sig = ''A'' \<or> IntegratedSignal.stock_code sig = ''B''"
    if "sig \<in> set sigs" for sig
    using lv [OF that] by (auto split: if_splits)
  have a: "signal_level sig = LEVEL_1"
    if "sig \<in> set sigs" "IntegratedSignal.stock_code sig = ''A''" for sig
  proof -
    from lv [OF that(1)] that(2) have "rational_investment sig = example_rational ''A'' 9"
      "growth_valuation sig = example_growth ''A'' BOTTOM_RIGHT None"
      "short_term sig = example_short_term ''A'' True 3"
      by simp_all
    with lv [OF that(1)] show ?thesis by (simp add: example_defs)
  qed
  have b: "signal_level sig = LEVEL_2"
    if "sig \<in> set sigs" "IntegratedSignal.stock_code sig = ''B''" for sig
  proof -
    from lv [OF that(1)] that(2) have "rational_investment sig = example_rational ''B'' 5"
      "growth_valuation sig = example_growth ''B'' BOTTOM_RIGHT None"
      "short_term sig = example_short_term ''B'' True 3"
      by simp_all
    with lv [OF that(1)] show ?thesis by (simp add: example_defs)
  qed
  have "(\<lambda>s. (IntegratedSignal.stock_code s, signal_level s)) ` set sigs
          = {(''A'', LEVEL_1), (''B'', LEVEL_2)}"
  proof (rule set_eqI)
    fix x
    show "x \<in> (\<lambda>s. (IntegratedSignal.stock_code s, signal_level s)) ` set sigs
       \<longleftrightarrow> x \<in> {(''A'', LEVEL_1), (''B'', LEVEL_2)}"
      using a b c nd by (cases x) (auto simp add: image_iff)
  qed
  with h r show ?thesis by blast
qed

section \<open>Ranking\<close>

text \<open>
  What the sort gives: whatever the order of the visit, the keys of the result, the pairs
  of the number of the level and the confidence, are in descending lexicographic order.
\<close>

lemma integrate_strategies_sorted_by_level_number:
  assumes "iterates all_codes (all_codes_set rs gs ss)"
  shows "\<exists>sigs. integrate_strategies self now all_codes rs gs ss = Inr sigs
     \<and> sorted (rev (map sort_key_of sigs))"
  using integrate_strategies_result [OF assms, of self now] by blast

text \<open>
  C4 (fails on the code). The claim wants every level-1 signal before every level-2 signal
  before every level-3 signal. The sort key is the number of the level, 1 for the
  strongest level and 3 for the weakest (which the source calls the lowest level), and
  the sort is descending, so the weakest level comes first. With the default
  configuration and two instruments, \<open>A\<close> passing all three gates (level 1, confidence 10)
  and \<open>B\<close> passing none (level 3, confidence 3), the result is \<open>B\<close> before \<open>A\<close>, in
  whichever order the two codes are visited.
\<close>

theorem integrate_strategies_weakest_first:
  "map_sum id (map (\<lambda>s. (IntegratedSignal.stock_code s, signal_level s, confidence_score s)))
     (integrate_strategies default_integrator 0 [''A'', ''B'']
        [example_rational ''A'' 9, example_rational ''B'' 5]
        [example_growth ''A'' BOTTOM_RIGHT None, example_growth ''B'' TOP_LEFT None]
        [example_short_term ''A'' True 3, example_short_term ''B'' False 0])
   = Inr [(''B'', LEVEL_3, 3), (''A'', LEVEL_1, 10)]
  \<and> map_sum id (map (\<lambda>s. (IntegratedSignal.stock_code s, signal_level s, confidence_score s)))
     (integrate_strategies default_integrator 0 [''B'', ''A'']
        [example_rational ''A'' 9, example_rational ''B'' 5]
        [example_growth ''A'' BOTTOM_RIGHT None, example_growth ''B'' TOP_LEFT None]
        [example_short_term ''A'' True 3, example_short_term ''B'' False 0])
   = Inr [(''B'', LEVEL_3, 3), (''A'', LEVEL_1, 10)]"
proof -
  from example_signal_strong [of 0 "''A''"] obtain sa where
    a: "make_signal default_integrator 0 ''A'' (example_rational ''A'' 9)
           (example_growth ''A'' BOTTOM_RIGHT None) (example_short_term ''A'' True 3) = Inr sa"
      "IntegratedSignal.stock_code sa = ''A''" "signal_level sa = LEVEL_1"
      "confidence_score sa = 10"
    by blast
  from example_signal_weak [of 0 "''B''"] obtain sb where
    b: "make_signal default_integrator 0 ''B'' (example_rational ''B'' 5)
           (example_growth ''B'' TOP_LEFT None) (example_short_term ''B'' False 0) = Inr sb"
      "IntegratedSignal.stock_code sb = ''B''" "signal_level sb = LEVEL_3"
      "confidence_score sb = 3"
    by blast
  have ab: "integrate_strategies default_integrator 0 [''A'', ''B'']
        [example_rational ''A'' 9, example_rational ''B'' 5]
        [example_growth ''A'' BOTTOM_RIGHT None, example_growth ''B'' TOP_LEFT None]
        [example_short_term ''A'' True 3, example_short_term ''B'' False 0]
      = Inr (sort_reverse [sa, sb])"
    by (simp add: integrate_strategies_def dict_by_two a b)
  have ba: "integrate_strategies default_integrator 0 [''B'', ''A'']
        [example_rational ''A'' 9, example_rational ''B'' 5]
        [example_growth ''A'' BOTTOM_RIGHT None, example_growth ''B'' TOP_LEFT None]
        [example_short_term ''A'' True 3, example_short_term ''B'' False 0]
      = Inr (sort_reverse [sb, sa])"
    by (simp add: integrate_strategies_def dict_by_two a b)
  have s1: "sort_reverse [sa, sb] = [sb, sa]"
    by (simp add: sort_reverse_def sort_key_of_def a b)
  have s2: "sort_reverse [sb, sa] = [sb, sa]"
    by (simp add: sort_reverse_def sort_key_of_def a b)
  show ?thesis
    by (simp add: ab ba s1 s2 a b)
qed


end
